theory Spec2Isabelle
  imports Main "HOL-Library.Word"
begin

section \<open>The Prometheus receiver: lifecycle of \<open>pReceiver\<close>\<close>

text \<open>
  A shallow embedding of \<^verbatim>\<open>receiver/prometheusreceiver/metrics_receiver.go\<close>:
  the constructor \<^verbatim>\<open>newPrometheusReceiver\<close> and the methods \<^verbatim>\<open>Start\<close> and
  \<^verbatim>\<open>Shutdown\<close> of \<^verbatim>\<open>pReceiver\<close>.

  The receiver mutates its configuration through a pointer, stores a cancellation
  function, calls into the discovery and scrape libraries and launches two goroutines.
  All of that is made explicit: \<open>Start\<close> and \<open>Shutdown\<close> take the receiver and a
  \<open>world\<close> and return both updated; every call that leaves the receiver is appended
  to the world's \<open>trace\<close> in program order; the answers of the two library calls that
  can fail (\<^verbatim>\<open>ApplyConfig\<close>) are parameters, collected in \<open>env\<close>; the body of each
  goroutine is a function of what its \<^verbatim>\<open>Run\<close> call returns.
\<close>

subsection \<open>Go values\<close>

text \<open>A Go \<^verbatim>\<open>error\<close> is \<^verbatim>\<open>nil\<close> (\<open>None\<close>) or an error value, kept by its message.\<close>

type_synonym goerror = "string option"

text \<open>
  \<^verbatim>\<open>context.Context\<close>: the background root, or a context derived from a parent by
  \<^verbatim>\<open>context.WithCancel\<close>. A \<^verbatim>\<open>context.CancelFunc\<close> is identified by the handle of the
  context it cancels.
\<close>

type_synonym CancelFunc = nat

datatype Context = Background | cancelCtx CancelFunc Context

text \<open>\<^verbatim>\<open>time.Duration\<close> is a 64-bit count of nanoseconds.\<close>

type_synonym Duration = "64 word"

definition Minute :: Duration where
  "Minute = 60 * 1000000000"

text \<open>The logger and the downstream consumer are opaque objects, kept by identity.\<close>

type_synonym Logger = nat
type_synonym MetricsConsumer = nat

subsection \<open>Configuration\<close>

text \<open>
  \<^verbatim>\<open>relabel.Config\<close>: the four fields the receiver's struct literal sets, and before
  them the two that say which string the regex is matched against, \<^verbatim>\<open>SourceLabels\<close>
  and \<^verbatim>\<open>Separator\<close>. A field a Go struct literal does not name keeps its zero value:
  no source labels, the empty separator. (\<^verbatim>\<open>Modulus\<close>, read only by the hash action,
  is left out.) A compiled \<^verbatim>\<open>relabel.Regexp\<close> is kept by the pattern text it was
  compiled from.
\<close>

datatype Action = Replace | Keep | Drop | HashMod | LabelMap | LabelDrop | LabelKeep

datatype Regexp = MustNewRegexp string

record relabelConfig =
  SourceLabels :: "string list"
  Separator :: string
  Action :: Action
  Regex :: Regexp
  Replacement :: string
  TargetLabel :: string

text \<open>\<^verbatim>\<open>discovery.Configs\<close>: a list of discovery configurations, each opaque.\<close>

type_synonym Configs = "string list"

text \<open>
  \<^verbatim>\<open>config.ScrapeConfig\<close>, with the three fields the receiver reads or writes. The
  jobs of a configuration are kept by value: each entry of \<^verbatim>\<open>ScrapeConfigs\<close> is taken
  to be an object of its own, as a loaded configuration has them.
\<close>

record ScrapeConfig =
  JobName :: string
  ServiceDiscoveryConfigs :: Configs
  RelabelConfigs :: "relabelConfig list"

text \<open>The Prometheus \<^verbatim>\<open>config.Config\<close> and the receiver's own \<^verbatim>\<open>Config\<close>.\<close>

record promConfig =
  ScrapeConfigs :: "ScrapeConfig list"

record Config =
  PrometheusConfig :: promConfig
  UseStartTimeMetric :: bool
  StartTimeMetricRegex :: string
  Name :: string

subsection \<open>The receiver\<close>

text \<open>
  \<^verbatim>\<open>cfg\<close> is a pointer in the source: what \<open>Start\<close> writes through it stays written,
  so \<open>Start\<close> returns the receiver with the configuration it now points to. A
  \<^verbatim>\<open>cancelFunc\<close> that was never assigned is Go's \<^verbatim>\<open>nil\<close> function value, \<open>None\<close>.
\<close>

record pReceiver =
  cfg :: Config
  consumer :: MetricsConsumer
  cancelFunc :: "CancelFunc option"
  logger :: Logger

definition newPrometheusReceiver :: "Logger \<Rightarrow> Config \<Rightarrow> MetricsConsumer \<Rightarrow> pReceiver" where
  "newPrometheusReceiver lg c next =
     \<lparr>cfg = c, consumer = next, cancelFunc = None, logger = lg\<rparr>"

subsection \<open>The world outside the receiver\<close>

text \<open>\<^verbatim>\<open>internal.JobsMap\<close>, kept by the expiration interval it was constructed with.\<close>

datatype JobsMap = NewJobsMap Duration

text \<open>
  A goroutine launched by \<open>Start\<close>: the discovery manager's run loop (the manager is
  identified by the context it was constructed with), or the scrape manager's run loop
  reading the sync channel of that discovery manager.
\<close>

datatype goroutine = DiscoveryRunLoop Context | ScrapeRunLoop Context

text \<open>The calls that leave the receiver, in the order of the source.\<close>

datatype event =
    CallWithCancel Context CancelFunc
  | CallNewDiscoveryManager Context
  | CallDiscoveryApplyConfig "string \<Rightarrow> Configs option"
  | Go goroutine
  | CallNewJobsMap Duration
  | CallNewOcaStore Context MetricsConsumer Logger "JobsMap option" bool string string
  | CallNewScrapeManager
  | CallSetScrapeManager
  | CallScrapeApplyConfig promConfig
  | CallCancel CancelFunc
  | CallDiscoveryRun
  | CallScrapeRun Context
  | LoggerError string string
  | ReportFatalError string

text \<open>
  The world: the next unused cancellation handle, the handles whose cancellation
  function has been called, and the trace of calls so far.
\<close>

record world =
  fresh :: nat
  cancelled :: "CancelFunc set"
  trace :: "event list"

definition emit :: "event \<Rightarrow> world \<Rightarrow> world" where
  "emit ev w = w\<lparr>trace := trace w @ [ev]\<rparr>"

text \<open>
  \<^verbatim>\<open>context.WithCancel(parent)\<close> returns a new context below \<open>parent\<close> and the function
  that cancels it. Calling a cancellation function marks its handle; calling it again
  changes nothing. A context is done once its own handle or an ancestor's is marked.
\<close>

definition WithCancel :: "Context \<Rightarrow> world \<Rightarrow> (Context \<times> CancelFunc) \<times> world" where
  "WithCancel parent w =
     ((cancelCtx (fresh w) parent, fresh w),
      emit (CallWithCancel parent (fresh w)) (w\<lparr>fresh := Suc (fresh w)\<rparr>))"

definition callCancel :: "CancelFunc \<Rightarrow> world \<Rightarrow> world" where
  "callCancel h w = emit (CallCancel h) (w\<lparr>cancelled := insert h (cancelled w)\<rparr>)"

fun Done :: "CancelFunc set \<Rightarrow> Context \<Rightarrow> bool" where
  "Done C Background = False"
| "Done C (cancelCtx h parent) = (h \<in> C \<or> Done C parent)"

text \<open>
  What the receiver is given from outside this file: the reserved label name
  \<^verbatim>\<open>internal.MagicScrapeJobLabel\<close>, and what the two \<^verbatim>\<open>ApplyConfig\<close> calls answer.
\<close>

record env =
  MagicScrapeJobLabel :: string
  discoveryApplyConfig :: "(string \<Rightarrow> Configs option) \<Rightarrow> goerror"
  scrapeApplyConfig :: "promConfig \<Rightarrow> goerror"

subsection \<open>\<open>Start\<close>\<close>

text \<open>
  The rule appended to one job (lines 60 to 65), and the loop over the indices of
  \<^verbatim>\<open>ScrapeConfigs\<close> (line 59), which updates the slice in place.
\<close>

definition appendJobRule :: "string \<Rightarrow> ScrapeConfig \<Rightarrow> ScrapeConfig" where
  "appendJobRule magic sc =
     sc\<lparr>RelabelConfigs := RelabelConfigs sc @
        [\<lparr>SourceLabels = [],
          Separator = [],
          Action = Replace,
          Regex = MustNewRegexp ''^instance$'',
          Replacement = JobName sc,
          TargetLabel = magic\<rparr>]\<rparr>"

function injectLoop :: "string \<Rightarrow> nat \<Rightarrow> ScrapeConfig list \<Rightarrow> ScrapeConfig list" where
  "injectLoop magic i scs =
     (if i < length scs
      then injectLoop magic (Suc i) (scs[i := appendJobRule magic (scs ! i)])
      else scs)"
  by pat_completeness auto
termination
  by (relation "measure (\<lambda>(magic, i, scs). length scs - i)") auto

declare injectLoop.simps [simp del]

text \<open>The loop that fills \<^verbatim>\<open>discoveryCfg\<close> (lines 69 to 72): a later job of the same
  name overwrites an earlier one.\<close>

fun discoveryCfgLoop :: "ScrapeConfig list \<Rightarrow> (string \<Rightarrow> Configs option) \<Rightarrow> (string \<Rightarrow> Configs option)" where
  "discoveryCfgLoop [] m = m"
| "discoveryCfgLoop (sc # scs) m =
     discoveryCfgLoop scs (m(JobName sc \<mapsto> ServiceDiscoveryConfigs sc))"

text \<open>Lines 83 to 86: the side-table, or \<^verbatim>\<open>nil\<close>.\<close>

definition makeJobsMap :: "Config \<Rightarrow> world \<Rightarrow> JobsMap option \<times> world" where
  "makeJobsMap c w =
     (if \<not> UseStartTimeMetric c
      then (Some (NewJobsMap (2 * Minute)), emit (CallNewJobsMap (2 * Minute)) w)
      else (None, w))"

text \<open>
  \<open>Start\<close> (lines 52 to 101). The result is the returned error, the receiver and
  the world. The logger adapter of line 56 only wraps the logger and is left out.
\<close>

definition Start :: "env \<Rightarrow> pReceiver \<Rightarrow> Context \<Rightarrow> world \<Rightarrow> goerror \<times> pReceiver \<times> world" where
  "Start e r ctx w =
     (let ((discoveryCtx, cancel), w1) = WithCancel Background w;
          r1 = r\<lparr>cancelFunc := Some cancel\<rparr>;
          c1 = (cfg r1)\<lparr>PrometheusConfig :=
                 (PrometheusConfig (cfg r1))\<lparr>ScrapeConfigs :=
                    injectLoop (MagicScrapeJobLabel e) 0
                      (ScrapeConfigs (PrometheusConfig (cfg r1)))\<rparr>\<rparr>;
          r2 = r1\<lparr>cfg := c1\<rparr>;
          w2 = emit (CallNewDiscoveryManager discoveryCtx) w1;
          discoveryCfg = discoveryCfgLoop (ScrapeConfigs (PrometheusConfig c1)) Map.empty;
          w3 = emit (CallDiscoveryApplyConfig discoveryCfg) w2
      in case discoveryApplyConfig e discoveryCfg of
           Some err \<Rightarrow> (Some err, r2, w3)
         | None \<Rightarrow>
            (let w4 = emit (Go (DiscoveryRunLoop discoveryCtx)) w3;
                 (jobsMap, w5) = makeJobsMap c1 w4;
                 w6 = emit (CallNewOcaStore ctx (consumer r2) (logger r2) jobsMap
                              (UseStartTimeMetric c1) (StartTimeMetricRegex c1) (Name c1)) w5;
                 w7 = emit CallNewScrapeManager w6;
                 w8 = emit CallSetScrapeManager w7;
                 w9 = emit (CallScrapeApplyConfig (PrometheusConfig c1)) w8
             in case scrapeApplyConfig e (PrometheusConfig c1) of
                  Some err \<Rightarrow> (Some err, r2, w9)
                | None \<Rightarrow> (None, r2, emit (Go (ScrapeRunLoop discoveryCtx)) w9)))"

text \<open>
  The bodies of the two goroutines (lines 76 to 81 and 94 to 99), as the calls each
  makes when its \<^verbatim>\<open>Run\<close> returns \<open>res\<close>.
\<close>

definition discoveryTask :: "goerror \<Rightarrow> event list" where
  "discoveryTask res =
     CallDiscoveryRun #
     (case res of
        None \<Rightarrow> []
      | Some err \<Rightarrow> [LoggerError ''Discovery manager failed'' err, ReportFatalError err])"

definition scrapeTask :: "Context \<Rightarrow> goerror \<Rightarrow> event list" where
  "scrapeTask discoveryCtx res =
     CallScrapeRun discoveryCtx #
     (case res of
        None \<Rightarrow> []
      | Some err \<Rightarrow> [LoggerError ''Scrape manager failed'' err, ReportFatalError err])"

subsection \<open>\<open>Shutdown\<close>\<close>

text \<open>
  \<open>Shutdown\<close> (lines 104 to 107) calls the stored function and returns \<^verbatim>\<open>nil\<close>.
  Calling a \<^verbatim>\<open>nil\<close> function value panics in Go.
\<close>

datatype panic = NilFuncCall

definition Shutdown :: "pReceiver \<Rightarrow> Context \<Rightarrow> world \<Rightarrow> panic + (goerror \<times> pReceiver \<times> world)" where
  "Shutdown r ctx w =
     (case cancelFunc r of
        None \<Rightarrow> Inl NilFuncCall
      | Some cancel \<Rightarrow> Inr (None, r, callCancel cancel w))"

subsection \<open>Reading a trace\<close>

text \<open>The calls one \<open>Start\<close> appended to the trace.\<close>

definition startEvents :: "env \<Rightarrow> pReceiver \<Rightarrow> Context \<Rightarrow> world \<Rightarrow> event list" where
  "startEvents e r ctx w = drop (length (trace w)) (trace (snd (snd (Start e r ctx w))))"

text \<open>The goroutines a trace launched, in order.\<close>

fun launched :: "event list \<Rightarrow> goroutine list" where
  "launched [] = []"
| "launched (Go g # evs) = g # launched evs"
| "launched (ev # evs) = launched evs"

text \<open>Classes of calls.\<close>

fun isApplyConfig :: "event \<Rightarrow> bool" where
  "isApplyConfig (CallDiscoveryApplyConfig m) = True"
| "isApplyConfig (CallScrapeApplyConfig c) = True"
| "isApplyConfig ev = False"

fun isDiscoveryApplyConfig :: "event \<Rightarrow> bool" where
  "isDiscoveryApplyConfig (CallDiscoveryApplyConfig m) = True"
| "isDiscoveryApplyConfig ev = False"

fun isScrapeApplyConfig :: "event \<Rightarrow> bool" where
  "isScrapeApplyConfig (CallScrapeApplyConfig c) = True"
| "isScrapeApplyConfig ev = False"

fun isGo :: "event \<Rightarrow> bool" where
  "isGo (Go g) = True"
| "isGo ev = False"

fun isGoDiscovery :: "event \<Rightarrow> bool" where
  "isGoDiscovery (Go (DiscoveryRunLoop c)) = True"
| "isGoDiscovery ev = False"

fun isGoScrape :: "event \<Rightarrow> bool" where
  "isGoScrape (Go (ScrapeRunLoop c)) = True"
| "isGoScrape ev = False"

text \<open>The calls that construct, configure or launch the scrape manager.\<close>

fun isScrapeManagerCall :: "event \<Rightarrow> bool" where
  "isScrapeManagerCall CallNewScrapeManager = True"
| "isScrapeManagerCall CallSetScrapeManager = True"
| "isScrapeManagerCall (CallScrapeApplyConfig c) = True"
| "isScrapeManagerCall (Go (ScrapeRunLoop c)) = True"
| "isScrapeManagerCall ev = False"

text \<open>The calls that build the appender store and its side-table.\<close>

fun isBridgeCall :: "event \<Rightarrow> bool" where
  "isBridgeCall (CallNewJobsMap d) = True"
| "isBridgeCall (CallNewOcaStore c k l j u x n) = True"
| "isBridgeCall ev = False"

fun isReportFatalError :: "event \<Rightarrow> bool" where
  "isReportFatalError (ReportFatalError err) = True"
| "isReportFatalError ev = False"

fun isRun :: "event \<Rightarrow> bool" where
  "isRun CallDiscoveryRun = True"
| "isRun (CallScrapeRun c) = True"
| "isRun ev = False"

text \<open>
  Every \<open>P\<close> call of a trace comes before every \<open>Q\<close> call: from the first \<open>Q\<close> call
  on, no \<open>P\<close> call is left.
\<close>

definition allBefore :: "(event \<Rightarrow> bool) \<Rightarrow> (event \<Rightarrow> bool) \<Rightarrow> event list \<Rightarrow> bool" where
  "allBefore P Q evs = (\<not> list_ex P (dropWhile (\<lambda>ev. \<not> Q ev) evs))"

text \<open>The handles on the chain from a context up to the root.\<close>

fun handles :: "Context \<Rightarrow> CancelFunc list" where
  "handles Background = []"
| "handles (cancelCtx h parent) = h # handles parent"

text \<open>A context that exists in a world: its handles were all handed out already.\<close>

definition existsIn :: "world \<Rightarrow> Context \<Rightarrow> bool" where
  "existsIn w c = list_all (\<lambda>h. h < fresh w) (handles c)"

text \<open>\<open>Start\<close> called \<open>n\<close> times in a row on the same receiver.\<close>

fun StartN :: "nat \<Rightarrow> env \<Rightarrow> pReceiver \<Rightarrow> Context \<Rightarrow> world \<Rightarrow> pReceiver \<times> world" where
  "StartN 0 e r ctx w = (r, w)"
| "StartN (Suc n) e r ctx w =
     (case Start e r ctx w of (err, r', w') \<Rightarrow> StartN n e r' ctx w')"

text \<open>The contexts handed to \<^verbatim>\<open>internal.NewOcaStore\<close> in a trace.\<close>

fun ocaStoreContexts :: "event list \<Rightarrow> Context list" where
  "ocaStoreContexts [] = []"
| "ocaStoreContexts (CallNewOcaStore c k l j u x n # evs) = c # ocaStoreContexts evs"
| "ocaStoreContexts (ev # evs) = ocaStoreContexts evs"

text \<open>
  The calls lines 83 to 87 make for a receiver: the side-table when it is wanted, then
  the appender store.
\<close>

definition bridgeEvents :: "Context \<Rightarrow> pReceiver \<Rightarrow> event list" where
  "bridgeEvents ctx r =
     (if UseStartTimeMetric (cfg r)
      then [CallNewOcaStore ctx (consumer r) (logger r) None True
              (StartTimeMetricRegex (cfg r)) (Name (cfg r))]
      else [CallNewJobsMap (2 * Minute),
            CallNewOcaStore ctx (consumer r) (logger r) (Some (NewJobsMap (2 * Minute))) False
              (StartTimeMetricRegex (cfg r)) (Name (cfg r))])"

subsection \<open>How the relabel library reads a rule\<close>

text \<open>
  The relabel library is not part of this repository; this is what it does with a
  rule, as far as the receiver's rule needs it. The string a rule's regex is matched
  against is made of the values that the rule's source labels have in the target's
  label set, joined by the rule's separator; a label the target does not have counts
  as the empty value. The library anchors every pattern at both ends, so a pattern
  \<^verbatim>\<open>^lit$\<close>, with \<open>lit\<close> made of letters, digits and underscores, matches the
  string \<open>lit\<close> and no other; \<open>matchString\<close> answers \<open>None\<close> for every other
  pattern. A \<open>Replace\<close> rule whose regex does not match leaves the label set as it
  was.
\<close>

fun joinWith :: "string \<Rightarrow> string list \<Rightarrow> string" where
  "joinWith sep [] = []"
| "joinWith sep [v] = v"
| "joinWith sep (v # vs) = v @ sep @ joinWith sep vs"

definition relabelInput :: "relabelConfig \<Rightarrow> (string \<Rightarrow> string option) \<Rightarrow> string" where
  "relabelInput rc lset =
     joinWith (Separator rc)
       (map (\<lambda>l. case lset l of None \<Rightarrow> [] | Some v \<Rightarrow> v) (SourceLabels rc))"

definition literalChar :: "char \<Rightarrow> bool" where
  "literalChar c =
     (c \<in> set ''abcdefghijklmnopqrstuvwxyzABCDEFGHIJKLMNOPQRSTUVWXYZ0123456789_'')"

fun matchString :: "Regexp \<Rightarrow> string \<Rightarrow> bool option" where
  "matchString (MustNewRegexp p) s =
     (case p of
        [] \<Rightarrow> None
      | c # rest \<Rightarrow>
          if c = CHR ''^'' \<and> rest \<noteq> [] \<and> last rest = CHR ''$'' \<and>
             list_all literalChar (butlast rest)
          then Some (s = butlast rest)
          else None)"

subsection \<open>Concrete inputs\<close>

text \<open>
  One job \<open>demo\<close> with one static target, a receiver just constructed for it, an empty
  world, and three environments: both libraries accept the configuration, the scrape
  library rejects it, the discovery library rejects it.
\<close>

definition demoConfig :: Config where
  "demoConfig =
     \<lparr>PrometheusConfig =
        \<lparr>ScrapeConfigs =
           [\<lparr>JobName = ''demo'', ServiceDiscoveryConfigs = [''static''],
             RelabelConfigs = []\<rparr>]\<rparr>,
      UseStartTimeMetric = False,
      StartTimeMetricRegex = [],
      Name = ''prometheus''\<rparr>"

definition demoReceiver :: pReceiver where
  "demoReceiver = newPrometheusReceiver 0 demoConfig 0"

definition world0 :: world where
  "world0 = \<lparr>fresh = 0, cancelled = {}, trace = []\<rparr>"

definition acceptAll :: env where
  "acceptAll =
     \<lparr>MagicScrapeJobLabel = ''magic'',
      discoveryApplyConfig = (\<lambda>m. None),
      scrapeApplyConfig = (\<lambda>c. None)\<rparr>"

definition rejectScrape :: env where
  "rejectScrape =
     \<lparr>MagicScrapeJobLabel = ''magic'',
      discoveryApplyConfig = (\<lambda>m. None),
      scrapeApplyConfig = (\<lambda>c. Some ''scrape: rejected'')\<rparr>"

definition rejectDiscovery :: env where
  "rejectDiscovery =
     \<lparr>MagicScrapeJobLabel = ''magic'',
      discoveryApplyConfig = (\<lambda>m. Some ''discovery: rejected''),
      scrapeApplyConfig = (\<lambda>c. None)\<rparr>"

text \<open>The labels of a discovered target of the job \<open>demo\<close>.\<close>

definition demoLabels :: "string \<Rightarrow> string option" where
  "demoLabels = [''instance'' \<mapsto> ''localhost:9090'', ''job'' \<mapsto> ''demo'']"

section \<open>Properties\<close>

subsection \<open>What \<open>Start\<close> computes\<close>

lemma Minute_two: "2 * Minute = (120000000000 :: Duration)"
  by (simp add: Minute_def)

text \<open>The index loop rewrites every job once, from left to right.\<close>

lemma injectLoop_take_drop:
  "i \<le> length scs \<Longrightarrow>
   injectLoop magic i scs = take i scs @ map (appendJobRule magic) (drop i scs)"
proof (induction magic i scs rule: injectLoop.induct)
  case (1 magic i scs)
  show ?case
  proof (cases "i < length scs")
    case True
    then have "injectLoop magic i scs =
        injectLoop magic (Suc i) (scs[i := appendJobRule magic (scs ! i)])"
      by (subst injectLoop.simps) simp
    also have "\<dots> = take (Suc i) (scs[i := appendJobRule magic (scs ! i)]) @
        map (appendJobRule magic) (drop (Suc i) (scs[i := appendJobRule magic (scs ! i)]))"
      using "1.IH" True by simp
    also have "\<dots> = take i scs @ map (appendJobRule magic) (drop i scs)"
      using True by (simp add: take_Suc_conv_app_nth Cons_nth_drop_Suc [symmetric])
    finally show ?thesis .
  next
    case False
    with "1.prems" show ?thesis by (subst injectLoop.simps) simp
  qed
qed

lemma injectLoop_map: "injectLoop magic 0 scs = map (appendJobRule magic) scs"
  using injectLoop_take_drop [of 0 scs magic] by simp

text \<open>The receiver, the returned error, the appended calls and the world after \<open>Start\<close>.\<close>

lemma Start_receiver:
  "fst (snd (Start e r ctx w)) =
     r\<lparr>cancelFunc := Some (fresh w),
       cfg := (cfg r)\<lparr>PrometheusConfig := (PrometheusConfig (cfg r))\<lparr>ScrapeConfigs :=
                map (appendJobRule (MagicScrapeJobLabel e))
                  (ScrapeConfigs (PrometheusConfig (cfg r)))\<rparr>\<rparr>\<rparr>"
  by (simp add: Start_def WithCancel_def makeJobsMap_def Let_def injectLoop_map
      split: option.split prod.split)

lemma startEvents_eq:
  "startEvents e r ctx w =
     (let dctx = cancelCtx (fresh w) Background;
          c1 = cfg (fst (snd (Start e r ctx w)));
          m = discoveryCfgLoop (ScrapeConfigs (PrometheusConfig c1)) Map.empty;
          pre = [CallWithCancel Background (fresh w), CallNewDiscoveryManager dctx,
                 CallDiscoveryApplyConfig m]
      in case discoveryApplyConfig e m of
           Some err \<Rightarrow> pre
         | None \<Rightarrow>
             pre @ [Go (DiscoveryRunLoop dctx)] @ bridgeEvents ctx r @
             [CallNewScrapeManager, CallSetScrapeManager,
              CallScrapeApplyConfig (PrometheusConfig c1)] @
             (case scrapeApplyConfig e (PrometheusConfig c1) of
                Some err \<Rightarrow> []
              | None \<Rightarrow> [Go (ScrapeRunLoop dctx)]))"
  unfolding Start_receiver
  by (simp add: startEvents_def Start_def WithCancel_def makeJobsMap_def Let_def injectLoop_map
      bridgeEvents_def emit_def split: option.split prod.split)

lemma Start_error:
  "fst (Start e r ctx w) =
     (let c1 = cfg (fst (snd (Start e r ctx w)));
          m = discoveryCfgLoop (ScrapeConfigs (PrometheusConfig c1)) Map.empty
      in case discoveryApplyConfig e m of
           Some err \<Rightarrow> Some err
         | None \<Rightarrow> scrapeApplyConfig e (PrometheusConfig c1))"
  unfolding Start_receiver
  by (simp add: Start_def WithCancel_def makeJobsMap_def Let_def injectLoop_map
      split: option.split prod.split)

lemma Start_world:
  "snd (snd (Start e r ctx w)) =
     w\<lparr>fresh := Suc (fresh w), trace := trace w @ startEvents e r ctx w\<rparr>"
  by (simp add: startEvents_def Start_def WithCancel_def makeJobsMap_def Let_def emit_def
      split: option.split prod.split)

text \<open>Small facts about traces, contexts and repeated starts.\<close>

lemma filter_bridge_bridgeEvents:
  "filter isBridgeCall (bridgeEvents ctx r) = bridgeEvents ctx r"
  by (simp add: bridgeEvents_def)

lemma filter_bridge_none:
  "filter (\<lambda>ev. isApplyConfig ev \<or> isGo ev \<or> isScrapeManagerCall ev) (bridgeEvents ctx r) = []"
  by (simp add: bridgeEvents_def)

lemma trace_callCancel: "trace (callCancel h w) = trace w @ [CallCancel h]"
  by (simp add: callCancel_def emit_def)

lemma cancelled_callCancel: "cancelled (callCancel h w) = insert h (cancelled w)"
  by (simp add: callCancel_def emit_def)

lemma Done_iff: "Done C c \<longleftrightarrow> list_ex (\<lambda>h. h \<in> C) (handles c)"
  by (induction c) auto

lemma existsIn_fresh: "existsIn w c \<Longrightarrow> fresh w \<notin> set (handles c)"
  by (auto simp: existsIn_def list_all_iff)

lemma StartN_Suc:
  "StartN (Suc n) e r ctx w =
     StartN n e (fst (snd (Start e r ctx w))) ctx (snd (snd (Start e r ctx w)))"
  by (simp add: case_prod_beta)

subsection \<open>Rejected configuration\<close>

text \<open>
  Claim C1. If either subsystem's \<^verbatim>\<open>ApplyConfig\<close> fails during \<open>Start\<close>, \<open>Start\<close>
  returns that error and no background task has been launched; in particular a scrape
  \<^verbatim>\<open>ApplyConfig\<close> failure leaves no discovery run loop running.

  The code does not do this. Evaluated on the job \<open>demo\<close> with a scrape library that
  rejects the configuration: \<open>Start\<close> returns the scrape error, the calls it made
  launched the discovery run loop, and the context of that loop has not been
  cancelled when \<open>Start\<close> returns. With a discovery library that rejects the
  configuration, \<open>Start\<close> returns the discovery error and has launched nothing.
\<close>

theorem Start_scrape_rejected_leaves_discovery_running:
  "fst (Start rejectScrape demoReceiver Background world0) = Some ''scrape: rejected'' \<and>
   launched (startEvents rejectScrape demoReceiver Background world0) =
     [DiscoveryRunLoop (cancelCtx 0 Background)] \<and>
   \<not> Done (cancelled (snd (snd (Start rejectScrape demoReceiver Background world0))))
        (cancelCtx 0 Background) \<and>
   fst (Start rejectDiscovery demoReceiver Background world0) = Some ''discovery: rejected'' \<and>
   launched (startEvents rejectDiscovery demoReceiver Background world0) = []"
  by (simp add: Start_error startEvents_eq Start_world Start_receiver rejectScrape_def
      rejectDiscovery_def demoReceiver_def newPrometheusReceiver_def demoConfig_def world0_def
      bridgeEvents_def Let_def)

subsection \<open>The goroutines\<close>

text \<open>
  Claim C2. For each of the two run loops, \<^verbatim>\<open>ReportFatalError\<close> is called if and only
  if the loop's \<^verbatim>\<open>Run\<close> returns a non-nil error, and then with that error; a nil return
  never reports; \<^verbatim>\<open>Run\<close> is called once and never again, whatever it returns.
\<close>

theorem run_loop_fatal_error_iff:
  "(ReportFatalError err \<in> set (discoveryTask res) \<longleftrightarrow> res = Some err) \<and>
   (ReportFatalError err \<in> set (scrapeTask dctx res) \<longleftrightarrow> res = Some err) \<and>
   (list_ex isReportFatalError (discoveryTask res) \<longleftrightarrow> res \<noteq> None) \<and>
   (list_ex isReportFatalError (scrapeTask dctx res) \<longleftrightarrow> res \<noteq> None) \<and>
   filter isRun (discoveryTask res) = [CallDiscoveryRun] \<and>
   filter isRun (scrapeTask dctx res) = [CallScrapeRun dctx]"
  by (cases res) (auto simp: discoveryTask_def scrapeTask_def)

subsection \<open>Label injection\<close>

text \<open>
  After \<open>Start\<close>, whatever it returns, every job of the configuration is the job it
  was with exactly one rule appended to its relabeling rules: no source labels, action
  \<open>Replace\<close>, the regular expression compiled from \<^verbatim>\<open>^instance$\<close>, the reserved label
  as target and the job's own name, whatever string that is, as replacement.
\<close>

lemma Start_appends_job_label_rule:
  "ScrapeConfigs (PrometheusConfig (cfg (fst (snd (Start e r ctx w))))) =
     map (\<lambda>sc. sc\<lparr>RelabelConfigs := RelabelConfigs sc @
                  [\<lparr>SourceLabels = [],
                    Separator = [],
                    Action = Replace,
                    Regex = MustNewRegexp ''^instance$'',
                    Replacement = JobName sc,
                    TargetLabel = MagicScrapeJobLabel e\<rparr>]\<rparr>)
       (ScrapeConfigs (PrometheusConfig (cfg r)))"
  by (simp add: Start_receiver appendJobRule_def)

text \<open>
  Claim C3. For every job, after the label-injection loop of \<open>Start\<close>, the job's
  rules end with exactly one appended rule whose action is \<open>Replace\<close>, whose regex
  matches the instance label, whose target is the reserved label and whose replacement
  is the job's exact name.

  The code appends one such rule, but its regex does not match the instance label.
  The struct literal names no source labels, so the string the regex is matched
  against is empty for every target, and \<^verbatim>\<open>^instance$\<close> matches the string
  \<open>instance\<close> only. Evaluated on the job \<open>demo\<close> and a target whose instance label
  is \<open>localhost:9090\<close>: the one rule of the job after \<open>Start\<close> is matched against
  the empty string and does not match. The same holds of the rule appended to any job,
  for any label set.
\<close>

theorem Start_job_label_rule_never_matches:
  "(let rc = \<lparr>SourceLabels = [], Separator = [], Action = Replace,
              Regex = MustNewRegexp ''^instance$'', Replacement = ''demo'',
              TargetLabel = ''magic''\<rparr>
    in map RelabelConfigs
         (ScrapeConfigs (PrometheusConfig
            (cfg (fst (snd (Start acceptAll demoReceiver Background world0)))))) = [[rc]] \<and>
       demoLabels ''instance'' = Some ''localhost:9090'' \<and>
       relabelInput rc demoLabels = [] \<and>
       matchString (Regex rc) (relabelInput rc demoLabels) = Some False \<and>
       matchString (Regex rc) ''instance'' = Some True) \<and>
   matchString (Regex (last (RelabelConfigs (appendJobRule magic sc))))
     (relabelInput (last (RelabelConfigs (appendJobRule magic sc))) lset) = Some False"
  by (simp add: Start_receiver appendJobRule_def acceptAll_def demoReceiver_def
      newPrometheusReceiver_def demoConfig_def demoLabels_def relabelInput_def
      literalChar_def Let_def)

subsection \<open>The start-time strategy\<close>

text \<open>
  Claim C4. When \<open>Start\<close> gets as far as building the appender store (the discovery
  library accepted the configuration), the side-table is constructed, with an
  expiration interval of two minutes, if and only if \<^verbatim>\<open>UseStartTimeMetric\<close> is not
  set. When it is set, no side-table is constructed, the store is handed \<^verbatim>\<open>nil\<close> in
  its place, and it is handed the flag and the start-time metric pattern. The store is
  built once, so the choice is made once for the receiver.
\<close>

theorem Start_start_time_strategy:
  assumes "discoveryApplyConfig e
             (discoveryCfgLoop
                (ScrapeConfigs (PrometheusConfig (cfg (fst (snd (Start e r ctx w))))))
                Map.empty) = None"
  shows "filter isBridgeCall (startEvents e r ctx w) =
           (if UseStartTimeMetric (cfg r)
            then [CallNewOcaStore ctx (consumer r) (logger r) None True
                    (StartTimeMetricRegex (cfg r)) (Name (cfg r))]
            else [CallNewJobsMap (2 * Minute),
                  CallNewOcaStore ctx (consumer r) (logger r) (Some (NewJobsMap (2 * Minute)))
                    False (StartTimeMetricRegex (cfg r)) (Name (cfg r))]) \<and>
         (CallNewJobsMap (2 * Minute) \<in> set (startEvents e r ctx w)
            \<longleftrightarrow> \<not> UseStartTimeMetric (cfg r)) \<and>
         2 * Minute = (120000000000 :: Duration)"
proof -
  have evs: "startEvents e r ctx w =
      [CallWithCancel Background (fresh w),
       CallNewDiscoveryManager (cancelCtx (fresh w) Background),
       CallDiscoveryApplyConfig
         (discoveryCfgLoop
            (ScrapeConfigs (PrometheusConfig (cfg (fst (snd (Start e r ctx w))))))
            Map.empty),
       Go (DiscoveryRunLoop (cancelCtx (fresh w) Background))] @
      bridgeEvents ctx r @
      [CallNewScrapeManager, CallSetScrapeManager,
       CallScrapeApplyConfig (PrometheusConfig (cfg (fst (snd (Start e r ctx w)))))] @
      (case scrapeApplyConfig e (PrometheusConfig (cfg (fst (snd (Start e r ctx w))))) of
         Some err \<Rightarrow> []
       | None \<Rightarrow> [Go (ScrapeRunLoop (cancelCtx (fresh w) Background))])"
    using assms by (subst startEvents_eq) (simp add: Let_def)
  have "filter isBridgeCall (startEvents e r ctx w) = bridgeEvents ctx r"
    by (subst evs) (simp add: filter_bridge_bridgeEvents split: option.split)
  moreover have "CallNewJobsMap (2 * Minute) \<in> set (startEvents e r ctx w)
      \<longleftrightarrow> \<not> UseStartTimeMetric (cfg r)"
    by (subst evs) (simp add: bridgeEvents_def split: option.split)
  ultimately show ?thesis
    by (simp add: bridgeEvents_def Minute_two)
qed

theorem Start_start_time_strategy_witness:
  "discoveryApplyConfig acceptAll
     (discoveryCfgLoop
        (ScrapeConfigs (PrometheusConfig
           (cfg (fst (snd (Start acceptAll demoReceiver Background world0))))))
        Map.empty) = None \<and>
   filter isBridgeCall (startEvents acceptAll demoReceiver Background world0) =
     [CallNewJobsMap 120000000000,
      CallNewOcaStore Background 0 0 (Some (NewJobsMap 120000000000)) False [] ''prometheus'']"
  using Start_start_time_strategy [of acceptAll demoReceiver Background world0]
  by (simp add: acceptAll_def demoReceiver_def newPrometheusReceiver_def demoConfig_def)

subsection \<open>\<open>Shutdown\<close> after \<open>Start\<close>\<close>

text \<open>
  Claim C5. After a \<open>Start\<close> that returned \<^verbatim>\<open>nil\<close>, \<open>Shutdown\<close> calls the stored
  cancellation function once, makes no other call (it waits for nothing) and returns
  \<^verbatim>\<open>nil\<close>; a second \<open>Shutdown\<close> right after it does the same, without a panic, and
  leaves the set of cancelled contexts as the first one left it.
\<close>

theorem Shutdown_after_Start:
  assumes "Start e r ctx w = (None, r', w')"
  shows "cancelFunc r' = Some (fresh w) \<and>
         Shutdown r' c1 w' = Inr (None, r', callCancel (fresh w) w') \<and>
         trace (callCancel (fresh w) w') = trace w' @ [CallCancel (fresh w)] \<and>
         Shutdown r' c2 (callCancel (fresh w) w') =
           Inr (None, r', callCancel (fresh w) (callCancel (fresh w) w')) \<and>
         trace (callCancel (fresh w) (callCancel (fresh w) w')) =
           trace w' @ [CallCancel (fresh w), CallCancel (fresh w)] \<and>
         cancelled (callCancel (fresh w) (callCancel (fresh w) w')) =
           cancelled (callCancel (fresh w) w')"
proof -
  have "r' = fst (snd (Start e r ctx w))"
    using assms by simp
  then have "cancelFunc r' = Some (fresh w)"
    by (simp add: Start_receiver)
  then show ?thesis
    by (simp add: Shutdown_def trace_callCancel cancelled_callCancel)
qed

theorem Shutdown_after_Start_witness:
  "fst (Start acceptAll demoReceiver Background world0) = None \<and>
   Shutdown (fst (snd (Start acceptAll demoReceiver Background world0))) Background
     (snd (snd (Start acceptAll demoReceiver Background world0))) =
     Inr (None, fst (snd (Start acceptAll demoReceiver Background world0)),
          callCancel 0 (snd (snd (Start acceptAll demoReceiver Background world0))))"
proof -
  have ok: "fst (Start acceptAll demoReceiver Background world0) = None"
    by (simp add: Start_error acceptAll_def Let_def)
  then have "Start acceptAll demoReceiver Background world0 =
      (None, fst (snd (Start acceptAll demoReceiver Background world0)),
       snd (snd (Start acceptAll demoReceiver Background world0)))"
    by (metis prod.collapse)
  from Shutdown_after_Start [OF this, of Background Background] ok
  show ?thesis by (simp add: world0_def)
qed

subsection \<open>The discovery context\<close>

text \<open>
  Claim C6. \<open>Start\<close> first derives a cancellable context from the background root,
  not from the context it was called with, constructs the discovery manager with it
  and stores its cancellation function on the receiver. That context is done exactly
  when its own handle is cancelled, so cancelling the caller's context, and every
  context above it, leaves it as it was; \<open>Shutdown\<close> calls the stored function and
  nothing else, and that call cancels it.
\<close>

theorem Start_discovery_context:
  assumes "existsIn w ctx"
  shows "take 2 (startEvents e r ctx w) =
           [CallWithCancel Background (fresh w),
            CallNewDiscoveryManager (cancelCtx (fresh w) Background)] \<and>
         cancelFunc (fst (snd (Start e r ctx w))) = Some (fresh w) \<and>
         (Done C (cancelCtx (fresh w) Background) \<longleftrightarrow> fresh w \<in> C) \<and>
         (Done (C \<union> set (handles ctx)) (cancelCtx (fresh w) Background)
            \<longleftrightarrow> Done C (cancelCtx (fresh w) Background)) \<and>
         Shutdown (fst (snd (Start e r ctx w))) c w'' =
           Inr (None, fst (snd (Start e r ctx w)), callCancel (fresh w) w'') \<and>
         Done (cancelled (callCancel (fresh w) w'')) (cancelCtx (fresh w) Background)"
proof -
  have "take 2 (startEvents e r ctx w) =
      [CallWithCancel Background (fresh w),
       CallNewDiscoveryManager (cancelCtx (fresh w) Background)]"
    by (subst startEvents_eq) (simp add: Let_def split: option.split)
  moreover have "cancelFunc (fst (snd (Start e r ctx w))) = Some (fresh w)"
    by (simp add: Start_receiver)
  moreover have "fresh w \<notin> set (handles ctx)"
    using assms by (rule existsIn_fresh)
  ultimately show ?thesis
    by (simp add: Shutdown_def cancelled_callCancel)
qed

theorem Start_discovery_context_witness:
  "existsIn (world0\<lparr>fresh := 1\<rparr>) (cancelCtx 0 Background) \<and>
   Done {0} (cancelCtx 0 Background) \<and>
   \<not> Done ({} \<union> set (handles (cancelCtx 0 Background))) (cancelCtx 1 Background)"
  using Start_discovery_context [where w = "world0\<lparr>fresh := 1\<rparr>"
      and ctx = "cancelCtx 0 Background" and C = "{}"]
  by (simp add: existsIn_def world0_def)

subsection \<open>The order of the calls\<close>

text \<open>
  Claim C7, as amended. In every \<open>Start\<close>, the discovery \<^verbatim>\<open>ApplyConfig\<close> call comes
  before any goroutine is launched, the scrape \<^verbatim>\<open>ApplyConfig\<close> call comes before the
  scrape run loop is launched, and the discovery run loop is launched before the
  scrape manager is constructed, configured or launched. When \<open>Start\<close> returns \<^verbatim>\<open>nil\<close>
  these calls are, in order: discovery \<^verbatim>\<open>ApplyConfig\<close>, launch of the discovery run
  loop, construction of the scrape manager, its registration with the store, scrape
  \<^verbatim>\<open>ApplyConfig\<close>, launch of the scrape run loop on the sync channel of that discovery
  manager.
\<close>

theorem Start_call_order:
  "allBefore isDiscoveryApplyConfig isGo (startEvents e r ctx w) \<and>
   allBefore isScrapeApplyConfig isGoScrape (startEvents e r ctx w) \<and>
   allBefore isGoDiscovery isScrapeManagerCall (startEvents e r ctx w) \<and>
   (fst (Start e r ctx w) = None \<longrightarrow>
      filter (\<lambda>ev. isApplyConfig ev \<or> isGo ev \<or> isScrapeManagerCall ev)
        (startEvents e r ctx w) =
        [CallDiscoveryApplyConfig
           (discoveryCfgLoop
              (ScrapeConfigs (PrometheusConfig (cfg (fst (snd (Start e r ctx w))))))
              Map.empty),
         Go (DiscoveryRunLoop (cancelCtx (fresh w) Background)),
         CallNewScrapeManager,
         CallSetScrapeManager,
         CallScrapeApplyConfig (PrometheusConfig (cfg (fst (snd (Start e r ctx w))))),
         Go (ScrapeRunLoop (cancelCtx (fresh w) Background))])"
proof -
  have 1: "allBefore isDiscoveryApplyConfig isGo (startEvents e r ctx w)"
    by (subst startEvents_eq)
       (simp add: Let_def allBefore_def bridgeEvents_def split: option.split)
  have 2: "allBefore isScrapeApplyConfig isGoScrape (startEvents e r ctx w)"
    by (subst startEvents_eq)
       (simp add: Let_def allBefore_def bridgeEvents_def split: option.split)
  have 3: "allBefore isGoDiscovery isScrapeManagerCall (startEvents e r ctx w)"
    by (subst startEvents_eq)
       (simp add: Let_def allBefore_def bridgeEvents_def split: option.split)
  have 4: "fst (Start e r ctx w) = None \<longrightarrow>
      filter (\<lambda>ev. isApplyConfig ev \<or> isGo ev \<or> isScrapeManagerCall ev)
        (startEvents e r ctx w) =
        [CallDiscoveryApplyConfig
           (discoveryCfgLoop
              (ScrapeConfigs (PrometheusConfig (cfg (fst (snd (Start e r ctx w))))))
              Map.empty),
         Go (DiscoveryRunLoop (cancelCtx (fresh w) Background)),
         CallNewScrapeManager,
         CallSetScrapeManager,
         CallScrapeApplyConfig (PrometheusConfig (cfg (fst (snd (Start e r ctx w))))),
         Go (ScrapeRunLoop (cancelCtx (fresh w) Background))]"
  proof
    assume ok: "fst (Start e r ctx w) = None"
    then have d: "discoveryApplyConfig e
        (discoveryCfgLoop
           (ScrapeConfigs (PrometheusConfig (cfg (fst (snd (Start e r ctx w))))))
           Map.empty) = None"
      and s: "scrapeApplyConfig e (PrometheusConfig (cfg (fst (snd (Start e r ctx w))))) = None"
      by (simp_all add: Start_error Let_def split: option.splits)
    show "filter (\<lambda>ev. isApplyConfig ev \<or> isGo ev \<or> isScrapeManagerCall ev)
        (startEvents e r ctx w) =
        [CallDiscoveryApplyConfig
           (discoveryCfgLoop
              (ScrapeConfigs (PrometheusConfig (cfg (fst (snd (Start e r ctx w))))))
              Map.empty),
         Go (DiscoveryRunLoop (cancelCtx (fresh w) Background)),
         CallNewScrapeManager,
         CallSetScrapeManager,
         CallScrapeApplyConfig (PrometheusConfig (cfg (fst (snd (Start e r ctx w))))),
         Go (ScrapeRunLoop (cancelCtx (fresh w) Background))]"
      using d s by (subst startEvents_eq) (simp add: Let_def filter_bridge_none)
  qed
  from 1 2 3 4 show ?thesis by blast
qed

theorem Start_call_order_witness:
  "fst (Start acceptAll demoReceiver Background world0) = None \<and>
   launched (filter (\<lambda>ev. isApplyConfig ev \<or> isGo ev \<or> isScrapeManagerCall ev)
     (startEvents acceptAll demoReceiver Background world0)) =
     [DiscoveryRunLoop (cancelCtx 0 Background), ScrapeRunLoop (cancelCtx 0 Background)] \<and>
   map isApplyConfig (filter (\<lambda>ev. isApplyConfig ev \<or> isGo ev \<or> isScrapeManagerCall ev)
     (startEvents acceptAll demoReceiver Background world0)) =
     [True, False, False, False, True, False]"
proof -
  have ok: "fst (Start acceptAll demoReceiver Background world0) = None"
    by (simp add: Start_error acceptAll_def Let_def)
  with Start_call_order [of acceptAll demoReceiver Background world0]
  show ?thesis by (simp add: world0_def)
qed

text \<open>
  Claim C7 as it was stated asks that both \<^verbatim>\<open>ApplyConfig\<close> calls come before any
  goroutine is launched. On the job \<open>demo\<close>, with both libraries accepting, they do
  not: the scrape \<^verbatim>\<open>ApplyConfig\<close> call comes after the launch of the discovery run loop.
\<close>

theorem Start_applyConfig_after_launch:
  "\<not> allBefore isApplyConfig isGo (startEvents acceptAll demoReceiver Background world0)"
  by (simp add: startEvents_eq allBefore_def acceptAll_def bridgeEvents_def demoReceiver_def
      newPrometheusReceiver_def demoConfig_def Let_def)

subsection \<open>\<open>Shutdown\<close> without \<open>Start\<close>\<close>

text \<open>
  Claim C8. A receiver on which \<open>Start\<close> was never called holds the \<^verbatim>\<open>nil\<close>
  cancellation function, and \<open>Shutdown\<close> on it panics. \<open>Shutdown\<close> returns exactly
  when a cancellation function is stored, and panics exactly when none is; any \<open>Start\<close>
  stores one, whatever it returns.
\<close>

theorem Shutdown_without_Start:
  "cancelFunc (newPrometheusReceiver lg c next) = None \<and>
   Shutdown (newPrometheusReceiver lg c next) ctx w = Inl NilFuncCall \<and>
   ((\<exists>res. Shutdown r ctx w = Inr res) \<longleftrightarrow> cancelFunc r \<noteq> None) \<and>
   (Shutdown r ctx w = Inl NilFuncCall \<longleftrightarrow> cancelFunc r = None) \<and>
   cancelFunc (fst (snd (Start e r ctx' w'))) \<noteq> None"
  by (auto simp: newPrometheusReceiver_def Shutdown_def Start_receiver split: option.split)

subsection \<open>\<open>Start\<close> called again\<close>

text \<open>
  Claim C9. \<open>Start\<close> is not idempotent on the job configurations: after \<open>n\<close> calls
  on the same receiver, whatever each returned, every job carries \<open>n\<close> copies of the
  job-name rule after the rules it had.
\<close>

theorem StartN_appends_n_rules:
  "ScrapeConfigs (PrometheusConfig (cfg (fst (StartN n e r ctx w)))) =
     map (\<lambda>sc. sc\<lparr>RelabelConfigs := RelabelConfigs sc @
                  replicate n
                    \<lparr>SourceLabels = [],
                     Separator = [],
                     Action = Replace,
                     Regex = MustNewRegexp ''^instance$'',
                     Replacement = JobName sc,
                     TargetLabel = MagicScrapeJobLabel e\<rparr>\<rparr>)
       (ScrapeConfigs (PrometheusConfig (cfg r)))"
proof (induction n arbitrary: r w)
  case 0
  show ?case by (simp add: map_idI)
next
  case (Suc n)
  show ?case
    unfolding StartN_Suc Suc.IH
    by (simp add: Start_receiver appendJobRule_def comp_def)
qed

subsection \<open>The context of the appender store\<close>

text \<open>
  Claim C10. When \<open>Start\<close> builds the appender store, it hands it the context
  \<open>Start\<close> was called with, which is not the context derived for discovery. Calling
  the cancellation function stored on the receiver, as \<open>Shutdown\<close> does, leaves the
  store's context as it was; cancelling the caller's context makes it done.
\<close>

theorem Start_appender_context:
  assumes "existsIn w ctx"
    and "discoveryApplyConfig e
           (discoveryCfgLoop
              (ScrapeConfigs (PrometheusConfig (cfg (fst (snd (Start e r ctx w))))))
              Map.empty) = None"
  shows "ocaStoreContexts (startEvents e r ctx w) = [ctx] \<and>
         ctx \<noteq> cancelCtx (fresh w) Background \<and>
         cancelFunc (fst (snd (Start e r ctx w))) = Some (fresh w) \<and>
         (Done (insert (fresh w) C) ctx \<longleftrightarrow> Done C ctx) \<and>
         (Done (C \<union> set (handles ctx)) ctx \<longleftrightarrow> Done C ctx \<or> ctx \<noteq> Background)"
proof -
  have fresh: "fresh w \<notin> set (handles ctx)"
    using assms(1) by (rule existsIn_fresh)
  have "ocaStoreContexts (startEvents e r ctx w) = [ctx]"
    using assms(2)
    by (subst startEvents_eq) (simp add: Let_def bridgeEvents_def split: option.split)
  moreover have "ctx \<noteq> cancelCtx (fresh w) Background"
    using fresh by auto
  moreover have "cancelFunc (fst (snd (Start e r ctx w))) = Some (fresh w)"
    by (simp add: Start_receiver)
  moreover have "Done (insert (fresh w) C) ctx \<longleftrightarrow> Done C ctx"
    using fresh by (auto simp: Done_iff list_ex_iff)
  moreover have "Done (C \<union> set (handles ctx)) ctx \<longleftrightarrow> Done C ctx \<or> ctx \<noteq> Background"
    by (cases ctx) (auto simp: Done_iff list_ex_iff)
  ultimately show ?thesis by blast
qed

theorem Start_appender_context_witness:
  "existsIn (world0\<lparr>fresh := 1\<rparr>) (cancelCtx 0 Background) \<and>
   ocaStoreContexts
     (startEvents acceptAll demoReceiver (cancelCtx 0 Background) (world0\<lparr>fresh := 1\<rparr>)) =
     [cancelCtx 0 Background] \<and>
   \<not> Done {1} (cancelCtx 0 Background) \<and>
   Done {0} (cancelCtx 0 Background)"
  using Start_appender_context [where w = "world0\<lparr>fresh := 1\<rparr>"
      and ctx = "cancelCtx 0 Background" and C = "{}" and e = acceptAll and r = demoReceiver]
  by (simp add: existsIn_def world0_def acceptAll_def)

end
